theory Spec2Isabelle
  imports Main
begin

section \<open>The Google Cloud Storage backend of htslib (hfile\_gcs.c)\<close>

text \<open>
  The file has two functions of interest. \<open>get_gcs_access_token\<close> produces the bearer
  token (from the environment, or from a process-wide cache that is refilled by running
  the gcloud command), and \<open>gcs_rewrite\<close> turns a \<open>gs:\<close> URL into an https URL, builds
  the HTTP headers and calls \<open>hopen\<close>.

  C strings are modelled as \<open>string\<close>: the characters before the terminating NUL.
  A \<open>char *\<close> that may be NULL is a \<open>string option\<close>. Whatever the C code leaves
  undefined (a read past a terminator, arithmetic on NULL) and the failed assertion are
  values of the type \<open>fault\<close>, so every function returns \<open>fault + result\<close>.
  Memory allocation inside the kstring functions is taken to succeed, and the
  diagnostic line written to stderr when \<open>hts_verbose >= 8\<close> is left out.
\<close>

datatype fault =
    AssertionFailure      \<comment> \<open>\<open>assert\<close> failed: the process is aborted\<close>
  | UndefinedBehaviour    \<comment> \<open>the C standard gives the execution no meaning\<close>

text \<open>
  \<open>AssertionFailure\<close> is an event of the program: \<open>abort\<close> is called.
  \<open>UndefinedBehaviour\<close> is not: it marks the executions about which the model says
  nothing, because the C code reads memory it does not own (the compiled code may well
  go on, with whatever bytes it finds).
\<close>

subsection \<open>The string functions the file uses\<close>

text \<open>\<open>strchr s c\<close> is the index of the first \<open>c\<close> in \<open>s\<close>, \<open>None\<close> for NULL.\<close>

definition strchr :: "string \<Rightarrow> char \<Rightarrow> nat option" where
  "strchr s c =
     (if c \<in> set s then Some (length (takeWhile (\<lambda>x. x \<noteq> c) s)) else None)"

text \<open>\<open>strcspn s reject\<close>: the length of the longest prefix of \<open>s\<close> free of
  the characters of \<open>reject\<close>.\<close>

definition strcspn :: "string \<Rightarrow> string \<Rightarrow> nat" where
  "strcspn s reject = length (takeWhile (\<lambda>x. x \<notin> set reject) s)"

text \<open>\<open>strncpy\<close> into a zeroed buffer of \<open>n\<close> bytes: at most \<open>n\<close> characters are
  copied (and no terminator is written when the source has \<open>n\<close> or more).\<close>

definition strncpy :: "string \<Rightarrow> nat \<Rightarrow> string" where
  "strncpy src n = take n src"

text \<open>The kstring appenders; the last argument is the kstring written to.\<close>

definition kputs :: "string \<Rightarrow> string \<Rightarrow> string" where
  "kputs p ks = ks @ p"

definition kputsn :: "string \<Rightarrow> nat \<Rightarrow> string \<Rightarrow> string" where
  "kputsn p n ks = ks @ take n p"

definition kputc :: "char \<Rightarrow> string \<Rightarrow> string" where
  "kputc c ks = ks @ [c]"

subsection \<open>The token provider\<close>

text \<open>
  The static state of the file: the buffer \<open>gcs_access_token\<close> (2048 bytes, all zero
  at program start) and \<open>last_access\<close>. The field \<open>gcs_access_token\<close> holds the bytes
  of the buffer before its first NUL, all 2048 of them when the buffer holds no NUL.
  \<open>popen_calls\<close> is not in the source: it counts the runs of \<open>popen\<close>, so that
  statements about how often the subprocess is started can be made.
\<close>

record process =
  gcs_access_token :: string
  last_access :: int
  popen_calls :: nat

definition MAX_GCS_TOKEN_SIZE :: nat where
  "MAX_GCS_TOKEN_SIZE = 2048"

definition MAX_SERVICE_TOKEN_DURATION :: int where
  "MAX_SERVICE_TOKEN_DURATION = 3540"

definition process_start :: process where
  "process_start = \<lparr>gcs_access_token = [], last_access = 0, popen_calls = 0\<rparr>"

text \<open>
  What \<open>popen\<close> followed by \<open>kgetline\<close> gives when the command is run:
  \<open>popen\<close> returns NULL (no pipe or no shell process could be made); or the stream
  ends before any byte (\<open>kgetline\<close> returns EOF); or \<open>kgetline\<close> returns 0 and
  leaves the line, without its line end, as the C string \<open>text.s\<close>.
  \<open>popen\<close> runs the command through the shell, so a gcloud command that is missing
  or cannot be executed is the second case, not the first: the shell starts, and
  nothing arrives on its standard output.
\<close>

datatype gcloud_run = PopenFailed | NoLine | Line string

text \<open>
  Everything outside the process that one call reads: the environment, the two values
  \<open>time(NULL)\<close> returns (in the staleness test, and when the fetch time is stored),
  and the outcome of the gcloud command if it is run. \<open>time_t\<close> is an integer count of
  seconds; \<open>difftime\<close> is their difference (exact in a double for every time that
  occurs in practice). \<open>ndebug\<close> says how the file was compiled: with the macro
  \<open>NDEBUG\<close> defined, \<open>assert\<close> expands to nothing.
\<close>

record world =
  getenv :: "string \<Rightarrow> string option"
  time_check :: int
  time_store :: int
  gcloud :: gcloud_run
  ndebug :: bool

definition difftime :: "int \<Rightarrow> int \<Rightarrow> int" where
  "difftime t1 t0 = t1 - t0"

text \<open>
  Lines 74 to 87: the body of the critical section. The \<open>assert\<close> of line 81 stops
  the process on a line of more than 2048 bytes unless the file was compiled with
  \<open>NDEBUG\<close>; \<open>strncpy\<close> then copies at most 2048 bytes.
\<close>

definition refresh :: "world \<Rightarrow> process \<Rightarrow> fault + process" where
  "refresh w s =
     (if last_access s = 0 \<or>
         (last_access s \<noteq> 0 \<and>
          difftime (time_check w) (last_access s) > MAX_SERVICE_TOKEN_DURATION)
      then
        (case gcloud w of
           PopenFailed \<Rightarrow> Inr (s\<lparr>popen_calls := popen_calls s + 1\<rparr>)
         | NoLine \<Rightarrow>
             Inr (s\<lparr>gcs_access_token := [],
                    last_access := time_store w,
                    popen_calls := popen_calls s + 1\<rparr>)
         | Line txt \<Rightarrow>
             if \<not> ndebug w \<and> \<not> length txt \<le> MAX_GCS_TOKEN_SIZE
             then Inl AssertionFailure
             else Inr (s\<lparr>gcs_access_token := strncpy txt MAX_GCS_TOKEN_SIZE,
                         last_access := time_store w,
                         popen_calls := popen_calls s + 1\<rparr>))
      else Inr s)"

text \<open>Line 91. \<open>strlen\<close> of a buffer without a NUL reads past its end.\<close>

definition cached :: "process \<Rightarrow> fault + (string option \<times> process)" where
  "cached s =
     (if length (gcs_access_token s) \<ge> MAX_GCS_TOKEN_SIZE then Inl UndefinedBehaviour
      else if length (gcs_access_token s) > 0 then Inr (Some (gcs_access_token s), s)
      else Inr (None, s))"

definition get_gcs_access_token ::
    "world \<Rightarrow> process \<Rightarrow> fault + (string option \<times> process)" where
  "get_gcs_access_token w s =
     (case getenv w ''GCS_OAUTH_TOKEN'' of
        Some token \<Rightarrow> Inr (Some token, s)
      | None \<Rightarrow>
          (case getenv w ''HTS_AUTH_LOCATION'' of
             Some _ \<Rightarrow> Inr (None, s)
           | None \<Rightarrow>
               (case getenv w ''GOOGLE_APPLICATION_CREDENTIALS'' of
                  Some _ \<Rightarrow>
                    (case refresh w s of
                       Inl e \<Rightarrow> Inl e
                     | Inr s' \<Rightarrow> cached s')
                | None \<Rightarrow> cached s)))"

subsection \<open>The URL translator\<close>

text \<open>Line 115: \<open>while (*bucket == '/') kputc(*bucket++, &url);\<close>
  The result is the rest of the string and the kstring.\<close>

fun copy_slashes :: "string \<Rightarrow> string \<Rightarrow> string \<times> string" where
  "copy_slashes [] url = ([], url)"
| "copy_slashes (c # cs) url =
     (if c = CHR ''/'' then copy_slashes cs (kputc c url) else (c # cs, url))"

text \<open>
  Lines 107 to 114: the transport prefix and the start of the bucket. Both branches
  form \<open>&gsurl[3]\<close>, which is past the terminator of a string shorter than three
  characters; \<open>strchr\<close> may return NULL; and a colon before index 3 makes the length
  given to \<open>kputsn\<close> negative, which is outside what \<open>kputsn\<close> is written for.
  None of the three arises for a URL that starts with a registered scheme
  (\<open>gs:\<close>, \<open>gs+http:\<close>, \<open>gs+https:\<close>).
\<close>

definition gcs_scheme :: "string \<Rightarrow> fault + (string \<times> string)" where
  "gcs_scheme gsurl =
     (if length gsurl < 3 then Inl UndefinedBehaviour
      else if gsurl ! 2 = CHR ''+'' then
        (case strchr gsurl (CHR '':'') of
           None \<Rightarrow> Inl UndefinedBehaviour
         | Some i \<Rightarrow>
             if i + 1 < 3 then Inl UndefinedBehaviour
             else Inr (kputsn (drop 3 gsurl) (i + 1 - 3) [], drop (i + 1) gsurl))
      else Inr (kputs ''https:'' [], drop 3 gsurl))"

text \<open>Lines 107 to 125: the rewritten URL.\<close>

definition gcs_url :: "string \<Rightarrow> string \<Rightarrow> fault + string" where
  "gcs_url gsurl mode =
     (case gcs_scheme gsurl of
        Inl e \<Rightarrow> Inl e
      | Inr (url0, bucket0) \<Rightarrow>
          (case copy_slashes bucket0 url0 of
             (bucket, url1) \<Rightarrow>
               let n = strcspn bucket ''/?#'';
                   path = drop n bucket;
                   url2 = kputsn bucket n url1;
                   url3 = (if strchr mode (CHR ''r'') \<noteq> None
                             then kputs ''.storage-download'' url2
                           else if strchr mode (CHR ''w'') \<noteq> None
                             then kputs ''.storage-upload'' url2
                           else kputs ''.storage'' url2);
                   url4 = kputs ''.googleapis.com'' url3
               in Inr (kputs path url4)))"

text \<open>
  The three shapes of the call of \<open>hopen\<close> (lines 152, 163 and 168), with the
  arguments in the order of the source: the URL, the mode, \<open>argsp\<close> (NULL is
  \<open>None\<close>), and the header arguments that follow \<open>"httphdr:l"\<close> or \<open>"httphdr"\<close>.
\<close>

datatype 'a hopen_args =
    Hopen string string
  | HopenHdrList string string "'a option" "string list"
  | HopenHdr string string "'a option" "string option"

text \<open>The header strings among the arguments of a call.\<close>

fun headers :: "'a hopen_args \<Rightarrow> string list" where
  "headers (Hopen u m) = []"
| "headers (HopenHdrList u m a hs) = hs"
| "headers (HopenHdr u m a None) = []"
| "headers (HopenHdr u m a (Some h)) = [h]"

fun target :: "'a hopen_args \<Rightarrow> string" where
  "target (Hopen u m) = u"
| "target (HopenHdrList u m a hs) = u"
| "target (HopenHdr u m a h) = u"

definition not_null :: "'a option \<Rightarrow> bool" where
  "not_null p = (case p of None \<Rightarrow> False | Some _ \<Rightarrow> True)"

text \<open>Lines 130 to 168: the headers and the choice of the call.\<close>

definition gcs_call ::
    "world \<Rightarrow> string \<Rightarrow> string \<Rightarrow> bool \<Rightarrow> 'a option \<Rightarrow> process
      \<Rightarrow> fault + ('a hopen_args \<times> process)" where
  "gcs_call w gsurl mode mode_has_colon argsp s =
     (case gcs_url gsurl mode of
        Inl e \<Rightarrow> Inl e
      | Inr url \<Rightarrow>
          (case get_gcs_access_token w s of
             Inl e \<Rightarrow> Inl e
           | Inr (access_token, s') \<Rightarrow>
               let auth_hdr =
                     (case access_token of
                        Some t \<Rightarrow> kputs t (kputs ''Authorization: Bearer '' [])
                      | None \<Rightarrow> []);
                   requester_pays_hdr =
                     (case getenv w ''GCS_REQUESTER_PAYS_PROJECT'' of
                        Some p \<Rightarrow> kputs p (kputs ''X-Goog-User-Project: '' [])
                      | None \<Rightarrow> [])
               in
                 if not_null argsp \<or> mode_has_colon \<or> length auth_hdr > 0
                    \<or> length requester_pays_hdr > 0
                 then
                   (let mode' = (if \<not> mode_has_colon
                                 then kputc (CHR '':'') (kputs mode [])
                                 else mode)
                    in if length auth_hdr > 0 \<and> length requester_pays_hdr > 0
                       then Inr (HopenHdrList url mode' argsp
                                   [auth_hdr, requester_pays_hdr], s')
                       else Inr (HopenHdr url mode' argsp
                                   (if length auth_hdr > 0 then Some auth_hdr else None),
                                 s'))
                 else Inr (Hopen url mode, s')))"

text \<open>\<open>gcs_rewrite\<close> returns what \<open>hopen\<close> returns (\<open>None\<close> is the NULL handle).\<close>

definition gcs_rewrite ::
    "('a hopen_args \<Rightarrow> 'h option) \<Rightarrow> world \<Rightarrow> string \<Rightarrow> string \<Rightarrow> bool \<Rightarrow> 'a option
      \<Rightarrow> process \<Rightarrow> fault + ('h option \<times> process)" where
  "gcs_rewrite hopen w gsurl mode mode_has_colon argsp s =
     (case gcs_call w gsurl mode mode_has_colon argsp s of
        Inl e \<Rightarrow> Inl e
      | Inr (c, s') \<Rightarrow> Inr (hopen c, s'))"

definition gcs_open ::
    "('a hopen_args \<Rightarrow> 'h option) \<Rightarrow> world \<Rightarrow> string \<Rightarrow> string \<Rightarrow> process
      \<Rightarrow> fault + ('h option \<times> process)" where
  "gcs_open hopen w url mode s = gcs_rewrite hopen w url mode False None s"

definition gcs_vopen ::
    "('a hopen_args \<Rightarrow> 'h option) \<Rightarrow> world \<Rightarrow> string \<Rightarrow> string \<Rightarrow> 'a
      \<Rightarrow> process \<Rightarrow> fault + ('h option \<times> process)" where
  "gcs_vopen hopen w url mode_colon args0 s =
     gcs_rewrite hopen w url mode_colon True (Some args0) s"

text \<open>An environment given by its list of settings.\<close>

definition environ :: "(string \<times> string) list \<Rightarrow> string \<Rightarrow> string option" where
  "environ kvs = map_of kvs"

subsection \<open>Several callers\<close>

text \<open>
  \<open>get_gcs_access_token\<close> may be called from several threads. For statements about
  that, the function is cut into its statements, and a thread is at one of them:
  \<open>Enter\<close> (lines 52 to 72), \<open>Lock\<close> (line 73), \<open>Test\<close> (line 74), \<open>Popen\<close> (line 75),
  \<open>Memset\<close> (line 77), \<open>Kgetline\<close> (line 79), \<open>Assert\<close> (line 81), \<open>Strncpy k\<close>
  (line 82, with \<open>k\<close> bytes copied so far), \<open>Stamp\<close> (line 85), \<open>Unlock\<close> (line 88) and
  \<open>Return\<close> (line 91); \<open>Returned r\<close> after the return, \<open>Stopped e\<close> after a fault.
  Each statement is one step, taken as a whole, except \<open>strncpy\<close>, which writes the
  buffer byte by byte, first byte first.
\<close>

datatype pc =
    Enter | Lock | Test | Popen | Memset | Kgetline | Assert | Strncpy nat | Stamp
  | Unlock | Return | Returned "string option" | Stopped fault

text \<open>
  A thread is where it is and what its call reads from outside. The threads share the
  static state of the file and the mutex \<open>lock\<close>, which holds the number of the thread
  that has locked it. \<open>aborted\<close> is set by a failed assertion: the process is gone.
\<close>

record thread =
  at :: pc
  sees :: world

record system =
  static :: process
  lock :: "nat option"
  aborted :: bool
  threads :: "nat \<Rightarrow> thread"

definition goto :: "nat \<Rightarrow> pc \<Rightarrow> system \<Rightarrow> system" where
  "goto i l sys = sys\<lparr>threads := (threads sys)(i := (threads sys i)\<lparr>at := l\<rparr>)\<rparr>"

definition store :: "(process \<Rightarrow> process) \<Rightarrow> system \<Rightarrow> system" where
  "store f sys = sys\<lparr>static := f (static sys)\<rparr>"

text \<open>The statements between \<open>pthread_mutex_lock\<close> and \<open>pthread_mutex_unlock\<close>.\<close>

fun in_critical :: "pc \<Rightarrow> bool" where
  "in_critical Test = True"
| "in_critical Popen = True"
| "in_critical Memset = True"
| "in_critical Kgetline = True"
| "in_critical Assert = True"
| "in_critical (Strncpy k) = True"
| "in_critical Stamp = True"
| "in_critical Unlock = True"
| "in_critical _ = False"

text \<open>
  One step of thread \<open>i\<close>; \<open>None\<close> when it cannot take one (it waits for the mutex,
  it has finished, or the process has been aborted).
\<close>

definition step :: "nat \<Rightarrow> system \<Rightarrow> system option" where
  "step i sys =
     (let w = sees (threads sys i); s = static sys in
      if aborted sys then None
      else case at (threads sys i) of
        Enter \<Rightarrow>
          (case getenv w ''GCS_OAUTH_TOKEN'' of
             Some token \<Rightarrow> Some (goto i (Returned (Some token)) sys)
           | None \<Rightarrow>
               (case getenv w ''HTS_AUTH_LOCATION'' of
                  Some _ \<Rightarrow> Some (goto i (Returned None) sys)
                | None \<Rightarrow>
                    (case getenv w ''GOOGLE_APPLICATION_CREDENTIALS'' of
                       Some _ \<Rightarrow> Some (goto i Lock sys)
                     | None \<Rightarrow> Some (goto i Return sys))))
      | Lock \<Rightarrow>
          (case lock sys of
             None \<Rightarrow> Some (goto i Test (sys\<lparr>lock := Some i\<rparr>))
           | Some _ \<Rightarrow> None)
      | Test \<Rightarrow>
          Some (goto i
            (if last_access s = 0 \<or>
                (last_access s \<noteq> 0 \<and>
                 difftime (time_check w) (last_access s) > MAX_SERVICE_TOKEN_DURATION)
             then Popen else Unlock) sys)
      | Popen \<Rightarrow>
          Some (goto i (case gcloud w of PopenFailed \<Rightarrow> Unlock | _ \<Rightarrow> Memset)
                  (store (\<lambda>s. s\<lparr>popen_calls := popen_calls s + 1\<rparr>) sys))
      | Memset \<Rightarrow>
          Some (goto i Kgetline (store (\<lambda>s. s\<lparr>gcs_access_token := []\<rparr>) sys))
      | Kgetline \<Rightarrow>
          Some (goto i (case gcloud w of Line txt \<Rightarrow> Assert | _ \<Rightarrow> Stamp) sys)
      | Assert \<Rightarrow>
          (case gcloud w of
             Line txt \<Rightarrow>
               if \<not> ndebug w \<and> \<not> length txt \<le> MAX_GCS_TOKEN_SIZE
               then Some (goto i (Stopped AssertionFailure) (sys\<lparr>aborted := True\<rparr>))
               else Some (goto i (Strncpy 0) sys)
           | _ \<Rightarrow> None)
      | Strncpy k \<Rightarrow>
          (case gcloud w of
             Line txt \<Rightarrow>
               if k < length txt \<and> k < MAX_GCS_TOKEN_SIZE
               then Some (goto i (Strncpy (k + 1))
                            (store (\<lambda>s. s\<lparr>gcs_access_token := take (k + 1) txt\<rparr>) sys))
               else Some (goto i Stamp sys)
           | _ \<Rightarrow> None)
      | Stamp \<Rightarrow>
          Some (goto i Unlock (store (\<lambda>s. s\<lparr>last_access := time_store w\<rparr>) sys))
      | Unlock \<Rightarrow> Some (goto i Return (sys\<lparr>lock := None\<rparr>))
      | Return \<Rightarrow>
          (case cached s of
             Inl e \<Rightarrow> Some (goto i (Stopped e) sys)
           | Inr (r, _) \<Rightarrow> Some (goto i (Returned r) sys))
      | Returned _ \<Rightarrow> None
      | Stopped _ \<Rightarrow> None)"

text \<open>A schedule is the list of the threads that take the steps, in order.\<close>

fun run :: "nat list \<Rightarrow> system \<Rightarrow> system option" where
  "run [] sys = Some sys"
| "run (i # sched) sys = (case step i sys of None \<Rightarrow> None | Some sys' \<Rightarrow> run sched sys')"

definition caller :: "world \<Rightarrow> thread" where
  "caller w = \<lparr>at = Enter, sees = w\<rparr>"

text \<open>What line 91 makes of the buffer, and where thread \<open>i\<close>, running alone, ends.\<close>

definition finish :: "process \<Rightarrow> pc" where
  "finish s = (case cached s of Inl e \<Rightarrow> Stopped e | Inr (r, _) \<Rightarrow> Returned r)"

definition ends_in :: "nat \<Rightarrow> system \<Rightarrow> process \<Rightarrow> pc \<Rightarrow> bool" where
  "ends_in i sys s' l =
     (\<exists>n fin. run (replicate n i) sys = Some fin \<and> static fin = s'
              \<and> at (threads fin i) = l)"

text \<open>
  Two threads with the credential path set and a token in the buffer that was fetched
  at time 1000. Thread 0 makes the test of line 74 at time 4540, thread 1 one second
  later, when the token has become stale.
\<close>

definition two_callers :: system where
  "two_callers =
     \<lparr>static = \<lparr>gcs_access_token = ''tok-old'', last_access = 1000, popen_calls = 1\<rparr>,
      lock = None,
      aborted = False,
      threads = (\<lambda>_. caller
         \<lparr>getenv = environ [(''GOOGLE_APPLICATION_CREDENTIALS'', ''/key.json'')],
          time_check = 4540, time_store = 4540, gcloud = Line ''ya29.new'',
          ndebug = False\<rparr>)
        (1 := caller
         \<lparr>getenv = environ [(''GOOGLE_APPLICATION_CREDENTIALS'', ''/key.json'')],
          time_check = 4541, time_store = 4542, gcloud = Line ''ya29.new'',
          ndebug = False\<rparr>)\<rparr>"

section \<open>The token provider: precedence\<close>

text \<open>
  C5. If \<open>GCS_OAUTH_TOKEN\<close> is set, its value is returned as it is, whatever else is
  configured, and the static state is not touched (no subprocess, no cache). Otherwise,
  if \<open>HTS_AUTH_LOCATION\<close> is set, the result is NULL, whatever the cache holds and
  whether or not a credential path is configured.
\<close>

theorem token_precedence:
  "(getenv w ''GCS_OAUTH_TOKEN'' = Some tok
      \<longrightarrow> get_gcs_access_token w s = Inr (Some tok, s))
   \<and> (getenv w ''GCS_OAUTH_TOKEN'' = None \<and> getenv w ''HTS_AUTH_LOCATION'' = Some loc
      \<longrightarrow> get_gcs_access_token w s = Inr (None, s))"
  by (simp add: get_gcs_access_token_def)

theorem token_precedence_witness:
  "get_gcs_access_token
     \<lparr>getenv = environ [(''GCS_OAUTH_TOKEN'', ''ya29.override''),
                         (''GOOGLE_APPLICATION_CREDENTIALS'', ''/key.json'')],
      time_check = 5000, time_store = 5001, gcloud = Line ''ya29.minted'', ndebug = False\<rparr>
     \<lparr>gcs_access_token = ''ya29.cached'', last_access = 100, popen_calls = 1\<rparr>
   = Inr (Some ''ya29.override'',
          \<lparr>gcs_access_token = ''ya29.cached'', last_access = 100, popen_calls = 1\<rparr>)
   \<and> get_gcs_access_token
     \<lparr>getenv = environ [(''HTS_AUTH_LOCATION'', ''/auth''),
                         (''GOOGLE_APPLICATION_CREDENTIALS'', ''/key.json'')],
      time_check = 5000, time_store = 5001, gcloud = Line ''ya29.minted'', ndebug = False\<rparr>
     \<lparr>gcs_access_token = ''ya29.cached'', last_access = 100, popen_calls = 1\<rparr>
   = Inr (None,
          \<lparr>gcs_access_token = ''ya29.cached'', last_access = 100, popen_calls = 1\<rparr>)"
  using
    token_precedence [of
      "\<lparr>getenv = environ [(''GCS_OAUTH_TOKEN'', ''ya29.override''),
                          (''GOOGLE_APPLICATION_CREDENTIALS'', ''/key.json'')],
        time_check = 5000, time_store = 5001, gcloud = Line ''ya29.minted'', ndebug = False\<rparr>"
      "''ya29.override''"
      "\<lparr>gcs_access_token = ''ya29.cached'', last_access = 100, popen_calls = 1\<rparr>"]
    token_precedence [of
      "\<lparr>getenv = environ [(''HTS_AUTH_LOCATION'', ''/auth''),
                          (''GOOGLE_APPLICATION_CREDENTIALS'', ''/key.json'')],
        time_check = 5000, time_store = 5001, gcloud = Line ''ya29.minted'', ndebug = False\<rparr>"
      "''ya29.override''"
      "\<lparr>gcs_access_token = ''ya29.cached'', last_access = 100, popen_calls = 1\<rparr>"
      "''/auth''"]
  by (simp add: environ_def)

section \<open>The URL translator: the rewritten URL\<close>

text \<open>The loop of line 115 copies every leading slash.\<close>

lemma copy_slashes_eq:
  "copy_slashes s url =
     (dropWhile (\<lambda>c. c = CHR ''/'') s, url @ takeWhile (\<lambda>c. c = CHR ''/'') s)"
  by (induction s arbitrary: url) (simp_all add: kputc_def)

lemma gcs_scheme_gs: "gcs_scheme (''gs:'' @ rest) = Inr (''https:'', rest)"
  by (simp add: gcs_scheme_def kputs_def)

lemma gcs_scheme_plus:
  assumes "CHR '':'' \<notin> set sch"
  shows "gcs_scheme (''gs+'' @ sch @ '':'' @ rest) = Inr (sch @ '':'', rest)"
proof -
  have tw: "takeWhile (\<lambda>x. x \<noteq> CHR '':'') (sch @ CHR '':'' # rest) = sch"
    using assms by (induction sch) auto
  show ?thesis
    by (simp add: gcs_scheme_def strchr_def kputsn_def tw)
qed

lemma gcs_url_parts:
  assumes "gcs_scheme gsurl = Inr (pre, rest)"
  shows "gcs_url gsurl mode =
     Inr (pre @ takeWhile (\<lambda>c. c = CHR ''/'') rest
            @ takeWhile (\<lambda>x. x \<notin> set ''/?#'') (dropWhile (\<lambda>c. c = CHR ''/'') rest)
            @ (if CHR ''r'' \<in> set mode then ''.storage-download''
               else if CHR ''w'' \<in> set mode then ''.storage-upload'' else ''.storage'')
            @ ''.googleapis.com''
            @ dropWhile (\<lambda>x. x \<notin> set ''/?#'') (dropWhile (\<lambda>c. c = CHR ''/'') rest))"
  using assms
  by (simp add: gcs_url_def copy_slashes_eq strcspn_def strchr_def kputs_def kputsn_def
      dropWhile_eq_drop [symmetric] takeWhile_eq_take [symmetric] del: set_simps)

text \<open>A span stops where the predicate first fails.\<close>

lemma span_stop:
  assumes "\<forall>x \<in> set xs. P x" and "ys = [] \<or> \<not> P (hd ys)"
  shows "takeWhile P (xs @ ys) = xs \<and> dropWhile P (xs @ ys) = ys"
proof -
  have "takeWhile P ys = [] \<and> dropWhile P ys = ys"
    using assms(2) by (cases ys) auto
  then show ?thesis
    using assms(1) by (simp add: takeWhile_append2 dropWhile_append2)
qed

lemma gcs_url_after_slashes:
  assumes sch: "gcs_scheme gsurl = Inr (pre, ''//'' @ bucket @ path)"
    and bucket: "\<forall>c \<in> set bucket. c \<notin> set ''/?#''"
    and path: "path = [] \<or> hd path \<in> set ''/?#''"
    and slash: "bucket = [] \<longrightarrow> path = [] \<or> hd path \<noteq> CHR ''/''"
  shows "gcs_url gsurl mode =
     Inr (pre @ ''//'' @ bucket
            @ (if CHR ''r'' \<in> set mode then ''.storage-download''
               else if CHR ''w'' \<in> set mode then ''.storage-upload'' else ''.storage'')
            @ ''.googleapis.com'' @ path)"
proof -
  have noslash: "bucket @ path = [] \<or> \<not> hd (bucket @ path) = CHR ''/''"
    using bucket slash by (cases bucket) auto
  have sl: "takeWhile (\<lambda>c. c = CHR ''/'') (''//'' @ bucket @ path) = ''//''
        \<and> dropWhile (\<lambda>c. c = CHR ''/'') (''//'' @ bucket @ path) = bucket @ path"
    using span_stop [of "''//''" "\<lambda>c. c = CHR ''/''" "bucket @ path"] noslash
    by simp
  have bp: "takeWhile (\<lambda>x. x \<notin> set ''/?#'') (bucket @ path) = bucket
        \<and> dropWhile (\<lambda>x. x \<notin> set ''/?#'') (bucket @ path) = path"
    using span_stop [of bucket "\<lambda>x. x \<notin> set ''/?#''" path] bucket path
    by blast
  show ?thesis
    unfolding gcs_url_parts [OF sch] using sl bp by simp
qed

text \<open>
  C3 as the specification states it: the bucket is the text between \<open>gs://\<close> and the
  first of \<open>/ ? #\<close>, and the result is \<open>https://bucket.HOST.googleapis.com\<close> followed
  by the rest. In \<open>gs:///obj\<close> that bucket is empty and the rest is \<open>/obj\<close>, so the
  claimed result is \<open>https://.storage-download.googleapis.com/obj\<close>. The loop of line
  115 does not stop after two slashes: it copies the third as well, and \<open>obj\<close> is
  read as the bucket.
\<close>

theorem gcs_url_form_counterexample:
  "gcs_url (''gs://'' @ [] @ ''/obj'') ''r'' =
     Inr ''https:///obj.storage-download.googleapis.com''
   \<and> gcs_url (''gs://'' @ [] @ ''/obj'') ''r'' \<noteq>
     Inr (''https://'' @ [] @ ''.'' @ ''storage-download'' @ ''.googleapis.com'' @ ''/obj'')"
  by (simp add: gcs_url_def gcs_scheme_def strchr_def strcspn_def kputs_def kputsn_def
      kputc_def)

text \<open>
  C3, amended. For a URL \<open>gs://bucket/path\<close> in which no further slash follows the
  two slashes, the result is \<open>https://bucket.HOST.googleapis.com/path\<close>, and for
  \<open>gs+SCHEME://bucket/path\<close> (any \<open>SCHEME\<close> without a colon, so \<open>http\<close> and
  \<open>https\<close>) it is \<open>SCHEME://bucket.HOST.googleapis.com/path\<close>. Here \<open>bucket\<close> is
  free of the characters \<open>/ ? #\<close>, \<open>path\<close> is empty or starts with one of them and
  is appended as it is, and \<open>HOST\<close> is \<open>storage-download\<close> if the mode contains
  \<open>r\<close>, else \<open>storage-upload\<close> if it contains \<open>w\<close>, else \<open>storage\<close>. No further
  slash after the two means: \<open>bucket\<close> is not empty, or \<open>path\<close> is empty or starts
  with \<open>?\<close> or \<open>#\<close>.
\<close>

theorem gcs_url_form:
  assumes "\<forall>c \<in> set bucket. c \<notin> set ''/?#''"
    and "path = [] \<or> hd path \<in> set ''/?#''"
    and "bucket = [] \<longrightarrow> path = [] \<or> hd path \<noteq> CHR ''/''"
    and "CHR '':'' \<notin> set sch"
  shows
    "gcs_url (''gs://'' @ bucket @ path) mode =
       Inr (''https://'' @ bucket @ ''.''
              @ (if CHR ''r'' \<in> set mode then ''storage-download''
                 else if CHR ''w'' \<in> set mode then ''storage-upload'' else ''storage'')
              @ ''.googleapis.com'' @ path)
     \<and> gcs_url (''gs+'' @ sch @ ''://'' @ bucket @ path) mode =
       Inr (sch @ ''://'' @ bucket @ ''.''
              @ (if CHR ''r'' \<in> set mode then ''storage-download''
                 else if CHR ''w'' \<in> set mode then ''storage-upload'' else ''storage'')
              @ ''.googleapis.com'' @ path)"
proof -
  have a: "gcs_scheme (''gs://'' @ bucket @ path) = Inr (''https:'', ''//'' @ bucket @ path)"
    using gcs_scheme_gs [of "''//'' @ bucket @ path"] by simp
  have b: "gcs_scheme (''gs+'' @ sch @ ''://'' @ bucket @ path)
             = Inr (sch @ '':'', ''//'' @ bucket @ path)"
    using gcs_scheme_plus [OF assms(4), of "''//'' @ bucket @ path"] by simp
  show ?thesis
    using gcs_url_after_slashes [OF a assms(1-3), of mode]
          gcs_url_after_slashes [OF b assms(1-3), of mode]
    by simp
qed

theorem gcs_url_form_witness:
  "gcs_url ''gs://my-bucket/dir/obj.bam?x=1#frag'' ''wb'' =
     Inr ''https://my-bucket.storage-upload.googleapis.com/dir/obj.bam?x=1#frag''
   \<and> gcs_url ''gs+http://my-bucket/dir/obj.bam?x=1#frag'' ''wb'' =
     Inr ''http://my-bucket.storage-upload.googleapis.com/dir/obj.bam?x=1#frag''"
  using gcs_url_form [of "''my-bucket''" "''/dir/obj.bam?x=1#frag''" "''http''" "''wb''"]
  by simp

section \<open>The URL translator: a mode with both \<open>r\<close> and \<open>w\<close>\<close>

text \<open>
  C9 as the specification states it: a mode that contains both \<open>r\<close> and \<open>w\<close> gives
  the host \<open>bucket.storage.googleapis.com\<close>. Lines 120 to 122 test \<open>r\<close> first, so the
  mode \<open>rw\<close> gives the download host, not the neutral one.
\<close>

theorem mode_rw_host_counterexample:
  "gcs_url ''gs://my-bucket/dir/obj.bam'' ''rw'' =
     Inr ''https://my-bucket.storage-download.googleapis.com/dir/obj.bam''
   \<and> gcs_url ''gs://my-bucket/dir/obj.bam'' ''rw'' \<noteq>
     Inr ''https://my-bucket.storage.googleapis.com/dir/obj.bam''"
  by (simp add: gcs_url_def gcs_scheme_def strchr_def strcspn_def kputs_def kputsn_def
      kputc_def)

text \<open>
  C9, amended. For every mode that contains both \<open>r\<close> and \<open>w\<close> the rewritten URL is the
  one of the mode \<open>r\<close>: the host is the download host
  \<open>bucket.storage-download.googleapis.com\<close>.
\<close>

theorem mode_rw_host:
  assumes "CHR ''r'' \<in> set mode" and "CHR ''w'' \<in> set mode"
  shows "gcs_url gsurl mode = gcs_url gsurl ''r''
    \<and> ((\<forall>c \<in> set bucket. c \<notin> set ''/?#'') \<and> (path = [] \<or> hd path \<in> set ''/?#'')
        \<and> (bucket = [] \<longrightarrow> path = [] \<or> hd path \<noteq> CHR ''/'')
        \<longrightarrow> gcs_url (''gs://'' @ bucket @ path) mode =
              Inr (''https://'' @ bucket @ ''.storage-download.googleapis.com'' @ path))"
proof -
  have same: "gcs_url gsurl mode = gcs_url gsurl ''r''"
    using assms(1) by (simp add: gcs_url_def strchr_def split: sum.splits prod.splits)
  have a: "gcs_scheme (''gs://'' @ bucket @ path) = Inr (''https:'', ''//'' @ bucket @ path)"
    using gcs_scheme_gs [of "''//'' @ bucket @ path"] by simp
  show ?thesis
    using same gcs_url_after_slashes [OF a, of mode] assms(1) by simp
qed

theorem mode_rw_host_witness:
  "gcs_url ''gs://b/o'' ''r+w'' = Inr ''https://b.storage-download.googleapis.com/o''
   \<and> gcs_url ''gs://b/o'' ''r'' = Inr ''https://b.storage-download.googleapis.com/o''"
  using mode_rw_host [of "''r+w''" "''gs://b/o''" "''b''" "''/o''"]
  by auto

section \<open>The URL translator: the headers passed to the opener\<close>

text \<open>
  C1. With \<open>GCS_REQUESTER_PAYS_PROJECT\<close> set and no token, the call takes the options
  path (the mode gets its colon), but the header argument is NULL: line 164 passes
  \<open>auth_hdr\<close> or NULL, and the \<open>X-Goog-User-Project\<close> header that lines 139 to 142
  built is not among the arguments.
\<close>

theorem project_header_dropped:
  "gcs_call
     \<lparr>getenv = environ [(''GCS_REQUESTER_PAYS_PROJECT'', ''proj-123'')],
      time_check = 0, time_store = 0, gcloud = PopenFailed, ndebug = False\<rparr>
     ''gs://my-bucket/dir/obj.bam'' ''r'' False None process_start
   = Inr (HopenHdr ''https://my-bucket.storage-download.googleapis.com/dir/obj.bam''
            ''r:'' None None,
          process_start)"
  by (simp add: gcs_call_def gcs_url_def gcs_scheme_def strchr_def strcspn_def kputs_def
      kputsn_def kputc_def get_gcs_access_token_def cached_def environ_def
      process_start_def MAX_GCS_TOKEN_SIZE_def not_null_def)

text \<open>
  What lines 144 to 168 do in general: the two-argument call is made exactly when there
  is no \<open>argsp\<close>, no colon, no token and no project; and the headers among the
  arguments are the \<open>Authorization\<close> header when there is a token, followed by the
  \<open>X-Goog-User-Project\<close> header when there is a project as well.
\<close>

lemma gcs_call_paths:
  assumes "gcs_url gsurl mode = Inr u"
    and "get_gcs_access_token w s = Inr (tok, s')"
    and "gcs_call w gsurl mode mode_has_colon argsp s = Inr (c, s'')"
  shows "s'' = s' \<and> target c = u
    \<and> ((\<exists>m. c = Hopen u m) \<longleftrightarrow>
          argsp = None \<and> \<not> mode_has_colon \<and> tok = None
          \<and> getenv w ''GCS_REQUESTER_PAYS_PROJECT'' = None)
    \<and> headers c =
         (case tok of
            None \<Rightarrow> []
          | Some t \<Rightarrow>
              (''Authorization: Bearer '' @ t)
              # (case getenv w ''GCS_REQUESTER_PAYS_PROJECT'' of
                   None \<Rightarrow> []
                 | Some p \<Rightarrow> [''X-Goog-User-Project: '' @ p]))"
  using assms
  by (auto simp: gcs_call_def Let_def kputs_def kputc_def not_null_def
      split: option.splits if_splits)

section \<open>The token provider: the cache\<close>

lemmas token_defs =
  get_gcs_access_token_def refresh_def cached_def difftime_def strncpy_def
  MAX_GCS_TOKEN_SIZE_def MAX_SERVICE_TOKEN_DURATION_def

text \<open>
  C7 as the specification states it: with none of the three variables set the result
  is NULL, whatever the cache holds. Line 91 is outside the test of
  \<open>GOOGLE_APPLICATION_CREDENTIALS\<close>: a token minted by an earlier call (the first
  call below, when the variable was still set) is returned by the second call, made
  with an empty environment.
\<close>

theorem no_config_counterexample:
  "get_gcs_access_token
     \<lparr>getenv = environ [(''GOOGLE_APPLICATION_CREDENTIALS'', ''/key.json'')],
      time_check = 1000, time_store = 1001, gcloud = Line ''ya29.minted'', ndebug = False\<rparr>
     process_start
   = Inr (Some ''ya29.minted'',
          \<lparr>gcs_access_token = ''ya29.minted'', last_access = 1001, popen_calls = 1\<rparr>)
   \<and> get_gcs_access_token
     \<lparr>getenv = environ [], time_check = 1010, time_store = 1011, gcloud = PopenFailed, ndebug = False\<rparr>
     \<lparr>gcs_access_token = ''ya29.minted'', last_access = 1001, popen_calls = 1\<rparr>
   = Inr (Some ''ya29.minted'',
          \<lparr>gcs_access_token = ''ya29.minted'', last_access = 1001, popen_calls = 1\<rparr>)"
  by (simp add: token_defs environ_def process_start_def)

text \<open>
  C7, amended. With none of the three variables set, the call returns NULL when the
  buffer is empty (as it is at program start), and the token in the buffer when there
  is one; the static state is left as it was, and no subprocess is run.
\<close>

theorem no_config_serves_cache:
  assumes "getenv w ''GCS_OAUTH_TOKEN'' = None"
    and "getenv w ''HTS_AUTH_LOCATION'' = None"
    and "getenv w ''GOOGLE_APPLICATION_CREDENTIALS'' = None"
  shows "(gcs_access_token s = [] \<longrightarrow> get_gcs_access_token w s = Inr (None, s))
    \<and> (gcs_access_token s \<noteq> [] \<and> length (gcs_access_token s) < 2048
        \<longrightarrow> get_gcs_access_token w s = Inr (Some (gcs_access_token s), s))"
  using assms by (simp add: get_gcs_access_token_def cached_def MAX_GCS_TOKEN_SIZE_def)

theorem no_config_serves_cache_witness:
  "get_gcs_access_token
     \<lparr>getenv = environ [(''GCS_REQUESTER_PAYS_PROJECT'', ''proj-123'')],
      time_check = 1010, time_store = 1011, gcloud = Line ''ya29.minted'', ndebug = False\<rparr>
     process_start
   = Inr (None, process_start)
   \<and> get_gcs_access_token
     \<lparr>getenv = environ [(''GCS_REQUESTER_PAYS_PROJECT'', ''proj-123'')],
      time_check = 1010, time_store = 1011, gcloud = Line ''ya29.minted'', ndebug = False\<rparr>
     \<lparr>gcs_access_token = ''ya29.old'', last_access = 7, popen_calls = 1\<rparr>
   = Inr (Some ''ya29.old'',
          \<lparr>gcs_access_token = ''ya29.old'', last_access = 7, popen_calls = 1\<rparr>)"
  using
    no_config_serves_cache [of
      "\<lparr>getenv = environ [(''GCS_REQUESTER_PAYS_PROJECT'', ''proj-123'')],
        time_check = 1010, time_store = 1011, gcloud = Line ''ya29.minted'', ndebug = False\<rparr>"
      process_start]
    no_config_serves_cache [of
      "\<lparr>getenv = environ [(''GCS_REQUESTER_PAYS_PROJECT'', ''proj-123'')],
        time_check = 1010, time_store = 1011, gcloud = Line ''ya29.minted'', ndebug = False\<rparr>"
      "\<lparr>gcs_access_token = ''ya29.old'', last_access = 7, popen_calls = 1\<rparr>"]
  by (simp add: environ_def process_start_def)

text \<open>
  C2 as the specification states it: when the subprocess gives no line, the cached
  token is left as it was and the fetch time is not updated. The \<open>memset\<close> of line
  77 runs as soon as \<open>popen\<close> has succeeded, and line 85 is outside the test of
  \<open>kgetline\<close>: a stale call whose subprocess prints nothing empties the buffer and
  sets \<open>last_access\<close>.
\<close>

theorem refresh_failure_counterexample:
  "get_gcs_access_token
     \<lparr>getenv = environ [(''GOOGLE_APPLICATION_CREDENTIALS'', ''/key.json'')],
      time_check = 10000, time_store = 10002, gcloud = NoLine, ndebug = False\<rparr>
     \<lparr>gcs_access_token = ''ya29.old'', last_access = 1000, popen_calls = 1\<rparr>
   = Inr (None, \<lparr>gcs_access_token = [], last_access = 10002, popen_calls = 2\<rparr>)"
  by (simp add: token_defs environ_def)

text \<open>
  C2, amended. In a refresh (credential path set, no override, no delegation, cache
  stale): if \<open>popen\<close> itself fails (it returns NULL), the buffer and \<open>last_access\<close>
  are left as they were, and the old token, if there is one (terminated, so shorter
  than 2048 bytes), is returned; if \<open>popen\<close> succeeds and no line is read (which is
  also what happens when the gcloud command is missing or cannot be executed, since
  the shell still starts), the buffer is emptied, \<open>last_access\<close> is set to the current
  time and NULL is returned.
\<close>

theorem refresh_failure:
  assumes "getenv w ''GCS_OAUTH_TOKEN'' = None"
    and "getenv w ''HTS_AUTH_LOCATION'' = None"
    and "getenv w ''GOOGLE_APPLICATION_CREDENTIALS'' = Some p"
    and "last_access s = 0 \<or> time_check w - last_access s > 3540"
  shows "(gcloud w = PopenFailed \<and> length (gcs_access_token s) < 2048
          \<longrightarrow> get_gcs_access_token w s =
                Inr (if gcs_access_token s = [] then None else Some (gcs_access_token s),
                     s\<lparr>popen_calls := popen_calls s + 1\<rparr>))
    \<and> (gcloud w = NoLine
          \<longrightarrow> get_gcs_access_token w s =
                Inr (None, s\<lparr>gcs_access_token := [], last_access := time_store w,
                              popen_calls := popen_calls s + 1\<rparr>))
    \<and> (gcloud w = PopenFailed
          \<longrightarrow> refresh w s = Inr (s\<lparr>popen_calls := popen_calls s + 1\<rparr>))"
  using assms by (auto simp: token_defs)

theorem refresh_failure_witness:
  "get_gcs_access_token
     \<lparr>getenv = environ [(''GOOGLE_APPLICATION_CREDENTIALS'', ''/key.json'')],
      time_check = 10000, time_store = 10002, gcloud = PopenFailed, ndebug = False\<rparr>
     \<lparr>gcs_access_token = ''ya29.old'', last_access = 1000, popen_calls = 1\<rparr>
   = Inr (Some ''ya29.old'',
          \<lparr>gcs_access_token = ''ya29.old'', last_access = 1000, popen_calls = 2\<rparr>)
   \<and> get_gcs_access_token
     \<lparr>getenv = environ [(''GOOGLE_APPLICATION_CREDENTIALS'', ''/key.json'')],
      time_check = 10000, time_store = 10002, gcloud = NoLine, ndebug = False\<rparr>
     process_start
   = Inr (None, \<lparr>gcs_access_token = [], last_access = 10002, popen_calls = 1\<rparr>)"
  using
    refresh_failure [of
      "\<lparr>getenv = environ [(''GOOGLE_APPLICATION_CREDENTIALS'', ''/key.json'')],
        time_check = 10000, time_store = 10002, gcloud = PopenFailed, ndebug = False\<rparr>"
      "''/key.json''"
      "\<lparr>gcs_access_token = ''ya29.old'', last_access = 1000, popen_calls = 1\<rparr>"]
    refresh_failure [of
      "\<lparr>getenv = environ [(''GOOGLE_APPLICATION_CREDENTIALS'', ''/key.json'')],
        time_check = 10000, time_store = 10002, gcloud = NoLine, ndebug = False\<rparr>"
      "''/key.json''"
      process_start]
  by (simp add: environ_def process_start_def)

text \<open>
  C4 as the specification states it: a call made when the cache is empty runs the
  subprocess. The test of line 74 reads \<open>last_access\<close>, not the buffer: after a
  first call whose subprocess printed nothing, the buffer is empty and \<open>last_access\<close>
  is set, and a second call ten seconds later runs no subprocess and returns NULL.
\<close>

theorem cache_staleness_counterexample:
  "get_gcs_access_token
     \<lparr>getenv = environ [(''GOOGLE_APPLICATION_CREDENTIALS'', ''/key.json'')],
      time_check = 1000, time_store = 1001, gcloud = NoLine, ndebug = False\<rparr>
     process_start
   = Inr (None, \<lparr>gcs_access_token = [], last_access = 1001, popen_calls = 1\<rparr>)
   \<and> get_gcs_access_token
     \<lparr>getenv = environ [(''GOOGLE_APPLICATION_CREDENTIALS'', ''/key.json'')],
      time_check = 1010, time_store = 1011, gcloud = Line ''ya29.minted'', ndebug = False\<rparr>
     \<lparr>gcs_access_token = [], last_access = 1001, popen_calls = 1\<rparr>
   = Inr (None, \<lparr>gcs_access_token = [], last_access = 1001, popen_calls = 1\<rparr>)"
  by (simp add: token_defs environ_def process_start_def)

text \<open>
  C4, amended. With the credential path set and neither override nor delegation:
  a call made when \<open>last_access\<close> is set and at most 3540 seconds old runs no
  subprocess and returns the token in the buffer (NULL when the buffer is empty);
  a call made when \<open>last_access\<close> is zero or more than 3540 seconds old runs the
  subprocess exactly once, and when a line shorter than the buffer is read, that line
  becomes the token and the current time the fetch time.
\<close>

theorem cache_staleness:
  assumes "getenv w ''GCS_OAUTH_TOKEN'' = None"
    and "getenv w ''HTS_AUTH_LOCATION'' = None"
    and "getenv w ''GOOGLE_APPLICATION_CREDENTIALS'' = Some p"
  shows "(last_access s \<noteq> 0 \<and> time_check w - last_access s \<le> 3540
          \<and> length (gcs_access_token s) < 2048
          \<longrightarrow> get_gcs_access_token w s =
                Inr (if gcs_access_token s = [] then None else Some (gcs_access_token s), s))
    \<and> (last_access s = 0 \<or> time_check w - last_access s > 3540
          \<longrightarrow> (\<forall>r s'. get_gcs_access_token w s = Inr (r, s')
                        \<longrightarrow> popen_calls s' = popen_calls s + 1)
              \<and> (\<forall>l. gcloud w = Line l \<and> length l < 2048
                        \<longrightarrow> get_gcs_access_token w s =
                              Inr (if l = [] then None else Some l,
                                   s\<lparr>gcs_access_token := l, last_access := time_store w,
                                      popen_calls := popen_calls s + 1\<rparr>)))"
  using assms
  by (auto simp: token_defs split: gcloud_run.splits if_splits)

theorem cache_staleness_witness:
  "get_gcs_access_token
     \<lparr>getenv = environ [(''GOOGLE_APPLICATION_CREDENTIALS'', ''/key.json'')],
      time_check = 4541, time_store = 4542, gcloud = Line ''ya29.minted'', ndebug = False\<rparr>
     \<lparr>gcs_access_token = ''ya29.old'', last_access = 1001, popen_calls = 1\<rparr>
   = Inr (Some ''ya29.old'',
          \<lparr>gcs_access_token = ''ya29.old'', last_access = 1001, popen_calls = 1\<rparr>)
   \<and> get_gcs_access_token
     \<lparr>getenv = environ [(''GOOGLE_APPLICATION_CREDENTIALS'', ''/key.json'')],
      time_check = 4542, time_store = 4545, gcloud = Line ''ya29.minted'', ndebug = False\<rparr>
     \<lparr>gcs_access_token = ''ya29.old'', last_access = 1001, popen_calls = 1\<rparr>
   = Inr (Some ''ya29.minted'',
          \<lparr>gcs_access_token = ''ya29.minted'', last_access = 4545, popen_calls = 2\<rparr>)"
  using
    cache_staleness [of
      "\<lparr>getenv = environ [(''GOOGLE_APPLICATION_CREDENTIALS'', ''/key.json'')],
        time_check = 4541, time_store = 4542, gcloud = Line ''ya29.minted'', ndebug = False\<rparr>"
      "''/key.json''"
      "\<lparr>gcs_access_token = ''ya29.old'', last_access = 1001, popen_calls = 1\<rparr>"]
    cache_staleness [of
      "\<lparr>getenv = environ [(''GOOGLE_APPLICATION_CREDENTIALS'', ''/key.json'')],
        time_check = 4542, time_store = 4545, gcloud = Line ''ya29.minted'', ndebug = False\<rparr>"
      "''/key.json''"
      "\<lparr>gcs_access_token = ''ya29.old'', last_access = 1001, popen_calls = 1\<rparr>"]
  by (simp add: environ_def)




section \<open>The URL translator: delegation to the opener\<close>

lemma registered_scheme:
  assumes "gsurl = ''gs:'' @ rest \<or> gsurl = ''gs+http:'' @ rest
           \<or> gsurl = ''gs+https:'' @ rest"
  shows "\<exists>pre. gcs_scheme gsurl = Inr (pre, rest)"
  using assms gcs_scheme_gs [of rest]
    gcs_scheme_plus [of "''http''" rest] gcs_scheme_plus [of "''https''" rest]
  by auto

lemma gcs_call_target:
  assumes "gcs_url gsurl mode = Inr u"
    and "get_gcs_access_token w s = Inr (tok, s')"
  shows "\<exists>c. gcs_call w gsurl mode mode_has_colon argsp s = Inr (c, s') \<and> target c = u"
  using assms by (simp add: gcs_call_def Let_def)

text \<open>
  C10 as the specification states it: \<open>gs:///obj\<close> has an empty bucket and gives a
  host that starts with \<open>.storage\<close>, and the opener is always called. The loop of
  line 115 copies all three slashes, so \<open>obj\<close> is read as the bucket; and in a build
  with \<open>assert\<close> compiled in, a token line of 2049 bytes aborts the process inside
  \<open>get_gcs_access_token\<close>, before \<open>hopen\<close> is reached.
\<close>

theorem gcs_rewrite_delegates_counterexample:
  "gcs_url ''gs:///obj'' ''r'' = Inr ''https:///obj.storage-download.googleapis.com''
   \<and> gcs_rewrite (\<lambda>c. Some (target c))
        \<lparr>getenv = environ [(''GOOGLE_APPLICATION_CREDENTIALS'', ''/key.json'')],
         time_check = 1000, time_store = 1001,
         gcloud = Line (replicate 2049 (CHR ''a'')), ndebug = False\<rparr>
        ''gs://b/o'' ''r'' False None process_start
      = Inl AssertionFailure"
  by (simp add: gcs_rewrite_def gcs_call_def gcs_url_def gcs_scheme_def strchr_def
      strcspn_def kputs_def kputsn_def kputc_def get_gcs_access_token_def refresh_def
      environ_def process_start_def MAX_GCS_TOKEN_SIZE_def)

text \<open>
  C10, amended. For every URL that starts with \<open>gs:\<close>, \<open>gs+http:\<close> or \<open>gs+https:\<close>
  and every mode, a target URL is built without any validation of bucket or path.
  Whenever \<open>get_gcs_access_token\<close> returns (a token or NULL), \<open>hopen\<close> is called with
  that URL and \<open>gcs_rewrite\<close> returns exactly what \<open>hopen\<close> returns, so it returns
  NULL exactly when \<open>hopen\<close> does. (\<open>get_gcs_access_token\<close> does not return when the
  assertion of line 81 fails; about a buffer left without a terminator nothing is
  stated.) An empty bucket arises when the text after \<open>gs://\<close> is empty or starts with
  \<open>?\<close> or \<open>#\<close>, and then the host starts with \<open>.storage\<close>; in \<open>gs:///obj\<close> the
  three slashes are copied and \<open>obj\<close> is the bucket.
\<close>

theorem gcs_rewrite_delegates:
  assumes "gsurl = ''gs:'' @ rest \<or> gsurl = ''gs+http:'' @ rest
           \<or> gsurl = ''gs+https:'' @ rest"
  shows "(\<exists>u. gcs_url gsurl mode = Inr u \<and>
            (case get_gcs_access_token w s of
               Inl e \<Rightarrow> gcs_rewrite hopen w gsurl mode mode_has_colon argsp s = Inl e
             | Inr (tok, s') \<Rightarrow>
                 (\<exists>c. gcs_call w gsurl mode mode_has_colon argsp s = Inr (c, s')
                      \<and> target c = u
                      \<and> gcs_rewrite hopen w gsurl mode mode_has_colon argsp s
                          = Inr (hopen c, s'))))
    \<and> (path = [] \<or> hd path \<in> set ''?#''
        \<longrightarrow> gcs_url (''gs://'' @ path) mode =
              Inr (''https://''
                   @ (if CHR ''r'' \<in> set mode then ''.storage-download''
                      else if CHR ''w'' \<in> set mode then ''.storage-upload''
                      else ''.storage'')
                   @ ''.googleapis.com'' @ path))
    \<and> (obj \<noteq> [] \<and> (\<forall>c \<in> set obj. c \<notin> set ''/?#'')
        \<longrightarrow> gcs_url (''gs:///'' @ obj) mode =
              Inr (''https:///'' @ obj
                   @ (if CHR ''r'' \<in> set mode then ''.storage-download''
                      else if CHR ''w'' \<in> set mode then ''.storage-upload''
                      else ''.storage'')
                   @ ''.googleapis.com''))"
proof -
  obtain pre where pre: "gcs_scheme gsurl = Inr (pre, rest)"
    using registered_scheme [OF assms] by blast
  then obtain u where u: "gcs_url gsurl mode = Inr u"
    using gcs_url_parts [OF pre, of mode] by blast
  have deleg: "case get_gcs_access_token w s of
       Inl e \<Rightarrow> gcs_rewrite hopen w gsurl mode mode_has_colon argsp s = Inl e
     | Inr (tok, s') \<Rightarrow>
         (\<exists>c. gcs_call w gsurl mode mode_has_colon argsp s = Inr (c, s')
              \<and> target c = u
              \<and> gcs_rewrite hopen w gsurl mode mode_has_colon argsp s = Inr (hopen c, s'))"
  proof (cases "get_gcs_access_token w s")
    case (Inl e)
    then show ?thesis
      using u by (simp add: gcs_rewrite_def gcs_call_def)
  next
    case (Inr r)
    obtain tok s' where r: "r = (tok, s')" by (cases r)
    obtain c where c: "gcs_call w gsurl mode mode_has_colon argsp s = Inr (c, s')"
        "target c = u"
      using gcs_call_target [OF u, of w s tok s' mode_has_colon argsp] Inr r by auto
    show ?thesis
      using Inr r c by (simp add: gcs_rewrite_def)
  qed
  have a: "gcs_scheme (''gs://'' @ path) = Inr (''https:'', ''//'' @ [] @ path)"
    using gcs_scheme_gs [of "''//'' @ path"] by simp
  have empty: "path = [] \<or> hd path \<in> set ''?#''
        \<longrightarrow> gcs_url (''gs://'' @ path) mode =
              Inr (''https://''
                   @ (if CHR ''r'' \<in> set mode then ''.storage-download''
                      else if CHR ''w'' \<in> set mode then ''.storage-upload''
                      else ''.storage'')
                   @ ''.googleapis.com'' @ path)"
    using gcs_url_after_slashes [OF a, of mode] by auto
  have b: "gcs_scheme (''gs:///'' @ obj) = Inr (''https:'', ''///'' @ obj)"
    using gcs_scheme_gs [of "''///'' @ obj"] by simp
  have three: "obj \<noteq> [] \<and> (\<forall>c \<in> set obj. c \<notin> set ''/?#'')
        \<longrightarrow> gcs_url (''gs:///'' @ obj) mode =
              Inr (''https:///'' @ obj
                   @ (if CHR ''r'' \<in> set mode then ''.storage-download''
                      else if CHR ''w'' \<in> set mode then ''.storage-upload''
                      else ''.storage'')
                   @ ''.googleapis.com'')"
  proof
    assume h: "obj \<noteq> [] \<and> (\<forall>c \<in> set obj. c \<notin> set ''/?#'')"
    then have ns: "obj = [] \<or> \<not> hd obj = CHR ''/''"
      by (cases obj) auto
    have sl: "takeWhile (\<lambda>c. c = CHR ''/'') (''///'' @ obj) = ''///''
        \<and> dropWhile (\<lambda>c. c = CHR ''/'') (''///'' @ obj) = obj"
      using span_stop [of "''///''" "\<lambda>c. c = CHR ''/''" obj] ns by simp
    have bp: "takeWhile (\<lambda>x. x \<notin> set ''/?#'') (obj @ []) = obj
        \<and> dropWhile (\<lambda>x. x \<notin> set ''/?#'') (obj @ []) = []"
      using span_stop [of obj "\<lambda>x. x \<notin> set ''/?#''" "[]"] h by blast
    show "gcs_url (''gs:///'' @ obj) mode =
              Inr (''https:///'' @ obj
                   @ (if CHR ''r'' \<in> set mode then ''.storage-download''
                      else if CHR ''w'' \<in> set mode then ''.storage-upload''
                      else ''.storage'')
                   @ ''.googleapis.com'')"
      unfolding gcs_url_parts [OF b] using sl bp by simp
  qed
  show ?thesis
    using u deleg empty three by blast
qed

theorem gcs_rewrite_delegates_witness:
  "gcs_rewrite (\<lambda>c. Some (target c))
     \<lparr>getenv = environ [(''GCS_OAUTH_TOKEN'', ''ya29.tok'')],
      time_check = 1000, time_store = 1001, gcloud = PopenFailed, ndebug = False\<rparr>
     ''gs+https://b/o'' ''r'' False (None :: unit option) process_start
   = Inr (Some ''https://b.storage-download.googleapis.com/o'', process_start)
   \<and> gcs_url ''gs://?x'' ''r'' = Inr ''https://.storage-download.googleapis.com?x''
   \<and> gcs_url ''gs:///obj'' ''r'' = Inr ''https:///obj.storage-download.googleapis.com''"
proof -
  let ?w = "\<lparr>getenv = environ [(''GCS_OAUTH_TOKEN'', ''ya29.tok'')],
      time_check = 1000, time_store = 1001, gcloud = PopenFailed, ndebug = False\<rparr>"
  have tok: "get_gcs_access_token ?w process_start = Inr (Some ''ya29.tok'', process_start)"
    by (simp add: get_gcs_access_token_def environ_def)
  have url: "gcs_url ''gs+https://b/o'' ''r'' = Inr ''https://b.storage-download.googleapis.com/o''"
    by (simp add: gcs_url_def gcs_scheme_def strchr_def strcspn_def kputs_def kputsn_def
        kputc_def)
  note t = gcs_rewrite_delegates [where gsurl = "''gs+https://b/o''" and rest = "''//b/o''"
      and mode = "''r''" and w = ?w and s = process_start
      and hopen = "\<lambda>c. Some (target c)" and mode_has_colon = False and argsp = "None :: unit option"
      and path = "''?x''" and obj = "''obj''"]
  have "''gs+https://b/o'' = ''gs:'' @ ''//b/o'' \<or> ''gs+https://b/o'' = ''gs+http:'' @ ''//b/o''
           \<or> ''gs+https://b/o'' = ''gs+https:'' @ ''//b/o''"
    by simp
  from t [OF this] show ?thesis
    using tok url by auto
qed

section \<open>Several callers: the mutex\<close>

lemmas step_defs =
  step_def goto_def store_def cached_def difftime_def caller_def
  MAX_GCS_TOKEN_SIZE_def MAX_SERVICE_TOKEN_DURATION_def

lemma goto_simps:
  "static (goto i l sys) = static sys"
  "lock (goto i l sys) = lock sys"
  "aborted (goto i l sys) = aborted sys"
  "at (threads (goto i l sys) i) = l"
  "sees (threads (goto i l sys) j) = sees (threads sys j)"
  by (simp_all add: goto_def)

lemma store_simps:
  "static (store f sys) = f (static sys)"
  "lock (store f sys) = lock sys"
  "aborted (store f sys) = aborted sys"
  "threads (store f sys) = threads sys"
  by (simp_all add: store_def)

text \<open>
  A thread that is between lines 74 and 88 holds the mutex. So no two threads are
  there at once: the refreshes, and with them the runs of the subprocess, come one
  after the other.
\<close>

lemma step_keeps_lock:
  assumes "step i sys = Some sys'"
    and "\<forall>j. in_critical (at (threads sys j)) \<longrightarrow> lock sys = Some j"
  shows "\<forall>j. in_critical (at (threads sys' j)) \<longrightarrow> lock sys' = Some j"
proof (intro allI impI)
  fix j
  assume cj: "in_critical (at (threads sys' j))"
  have ii: "in_critical (at (threads sys i)) \<longrightarrow> lock sys = Some i"
    using assms(2) by blast
  have jj: "in_critical (at (threads sys j)) \<longrightarrow> lock sys = Some j"
    using assms(2) by blast
  show "lock sys' = Some j"
    using assms(1) cj ii jj
    by (auto simp: step_def goto_def store_def Let_def
        split: pc.splits option.splits if_splits gcloud_run.splits sum.splits)
qed

lemma run_keeps_lock:
  assumes "run sched sys = Some sys'"
    and "\<forall>j. in_critical (at (threads sys j)) \<longrightarrow> lock sys = Some j"
  shows "\<forall>j. in_critical (at (threads sys' j)) \<longrightarrow> lock sys' = Some j"
  using assms
proof (induction sched arbitrary: sys)
  case Nil
  then show ?case by simp
next
  case (Cons i sched)
  then obtain mid where mid: "step i sys = Some mid" "run sched mid = Some sys'"
    by (auto split: option.splits)
  show ?case
    using Cons.IH [OF mid(2) step_keeps_lock [OF mid(1) Cons.prems(2)]] .
qed

lemma mutual_exclusion:
  assumes "run sched sys = Some sys'"
    and "\<forall>j. at (threads sys j) = Enter"
    and "in_critical (at (threads sys' i))" and "in_critical (at (threads sys' j))"
  shows "i = j"
proof -
  have "\<forall>j. in_critical (at (threads sys j)) \<longrightarrow> lock sys = Some j"
    using assms(2) by simp
  from run_keeps_lock [OF assms(1) this] assms(3,4) show ?thesis
    by (metis option.inject)
qed

text \<open>
  A thread running alone goes through its statements to the result of
  \<open>get_gcs_access_token\<close>: the steps are the function.
\<close>

lemma ends_here:
  "ends_in i sys (static sys) (at (threads sys i))"
  unfolding ends_in_def
  by (rule exI [of _ 0]) simp

lemma ends_step:
  assumes "step i sys = Some mid" and "ends_in i mid s' l"
  shows "ends_in i sys s' l"
proof -
  obtain n fin where "run (replicate n i) mid = Some fin" "static fin = s'"
      "at (threads fin i) = l"
    using assms(2) unfolding ends_in_def by blast
  then have "run (replicate (Suc n) i) sys = Some fin \<and> static fin = s'
      \<and> at (threads fin i) = l"
    using assms(1) by simp
  then show ?thesis unfolding ends_in_def by blast
qed

lemma solo_Return:
  assumes "at (threads sys i) = Return" and "\<not> aborted sys"
  shows "ends_in i sys (static sys) (finish (static sys))"
proof -
  have st: "step i sys = Some (goto i (finish (static sys)) sys)"
    using assms by (simp add: step_def finish_def split: sum.splits)
  show ?thesis
    using ends_step [OF st ends_here] by (simp add: goto_simps)
qed

lemma solo_Unlock:
  assumes "at (threads sys i) = Unlock" and "\<not> aborted sys"
  shows "ends_in i sys (static sys) (finish (static sys))"
proof -
  let ?mid = "goto i Return (sys\<lparr>lock := None\<rparr>)"
  have st: "step i sys = Some ?mid"
    using assms by (simp add: step_def)
  have "ends_in i ?mid (static ?mid) (finish (static ?mid))"
    using assms(2) by (intro solo_Return) (simp_all add: goto_simps)
  then show ?thesis
    using ends_step [OF st] by (simp add: goto_simps)
qed

lemma solo_Stamp:
  assumes "at (threads sys i) = Stamp" and "\<not> aborted sys"
  shows "ends_in i sys
           ((static sys)\<lparr>last_access := time_store (sees (threads sys i))\<rparr>)
           (finish ((static sys)\<lparr>last_access := time_store (sees (threads sys i))\<rparr>))"
proof -
  let ?mid = "goto i Unlock
      (store (\<lambda>s. s\<lparr>last_access := time_store (sees (threads sys i))\<rparr>) sys)"
  have st: "step i sys = Some ?mid"
    using assms by (simp add: step_def)
  have "ends_in i ?mid (static ?mid) (finish (static ?mid))"
    using assms(2) by (intro solo_Unlock) (simp_all add: goto_simps store_simps)
  then show ?thesis
    using ends_step [OF st] by (simp add: goto_simps store_simps)
qed

lemma solo_Strncpy:
  assumes "at (threads sys i) = Strncpy k" and "\<not> aborted sys"
    and "gcloud (sees (threads sys i)) = Line txt"
    and "gcs_access_token (static sys) = take k txt"
    and "k \<le> length txt" and "k \<le> MAX_GCS_TOKEN_SIZE"
  shows "ends_in i sys
           ((static sys)\<lparr>gcs_access_token := strncpy txt MAX_GCS_TOKEN_SIZE,
                           last_access := time_store (sees (threads sys i))\<rparr>)
           (finish ((static sys)\<lparr>gcs_access_token := strncpy txt MAX_GCS_TOKEN_SIZE,
                           last_access := time_store (sees (threads sys i))\<rparr>))"
  using assms
proof (induction "min (length txt) MAX_GCS_TOKEN_SIZE - k" arbitrary: sys k)
  case 0
  then have full: "take k txt = strncpy txt MAX_GCS_TOKEN_SIZE"
    by (auto simp: strncpy_def min_def split: if_splits)
  let ?mid = "goto i Stamp sys"
  have st: "step i sys = Some ?mid"
    using 0 by (auto simp: step_def min_def split: if_splits)
  have same: "(static sys)\<lparr>gcs_access_token := strncpy txt MAX_GCS_TOKEN_SIZE\<rparr> = static sys"
    using 0(5) full by simp
  have "ends_in i ?mid
           ((static ?mid)\<lparr>last_access := time_store (sees (threads ?mid i))\<rparr>)
           (finish ((static ?mid)\<lparr>last_access := time_store (sees (threads ?mid i))\<rparr>))"
    using 0(3) by (intro solo_Stamp) (simp_all add: goto_simps)
  then show ?case
    using ends_step [OF st] same by (simp add: goto_simps)
next
  case (Suc d)
  let ?mid = "goto i (Strncpy (k + 1))
      (store (\<lambda>s. s\<lparr>gcs_access_token := take (k + 1) txt\<rparr>) sys)"
  have lt: "k < length txt \<and> k < MAX_GCS_TOKEN_SIZE"
    using Suc(2) by (auto simp: min_def split: if_splits)
  have st: "step i sys = Some ?mid"
    using Suc(3,4,5) lt by (simp add: step_def)
  have "ends_in i ?mid
           ((static ?mid)\<lparr>gcs_access_token := strncpy txt MAX_GCS_TOKEN_SIZE,
                           last_access := time_store (sees (threads ?mid i))\<rparr>)
           (finish ((static ?mid)\<lparr>gcs_access_token := strncpy txt MAX_GCS_TOKEN_SIZE,
                           last_access := time_store (sees (threads ?mid i))\<rparr>))"
  proof (rule Suc(1) [where k = "k + 1"])
    show "d = min (length txt) MAX_GCS_TOKEN_SIZE - (k + 1)"
      using Suc(2) by simp
  qed (use Suc(4,5) lt in \<open>simp_all add: goto_simps store_simps\<close>)
  then show ?case
    using ends_step [OF st] by (simp add: goto_simps store_simps)
qed

lemma process_update_order:
  "s\<lparr>popen_calls := n, gcs_access_token := t, last_access := a\<rparr>
     = s\<lparr>gcs_access_token := t, last_access := a, popen_calls := n\<rparr>"
  by (cases s) simp

lemma solo_Popen:
  assumes "at (threads sys i) = Popen" and "\<not> aborted sys"
    and "last_access (static sys) = 0 \<or>
         (last_access (static sys) \<noteq> 0 \<and>
          difftime (time_check (sees (threads sys i))) (last_access (static sys))
            > MAX_SERVICE_TOKEN_DURATION)"
  shows "case refresh (sees (threads sys i)) (static sys) of
           Inl e \<Rightarrow> \<exists>s'. ends_in i sys s' (Stopped e)
         | Inr s' \<Rightarrow> ends_in i sys s' (finish s')"
proof (cases "gcloud (sees (threads sys i))")
  case PopenFailed
  let ?m1 = "goto i Unlock (store (\<lambda>s. s\<lparr>popen_calls := popen_calls s + 1\<rparr>) sys)"
  have s1: "step i sys = Some ?m1"
    using assms PopenFailed by (simp add: step_def)
  have "ends_in i ?m1 (static ?m1) (finish (static ?m1))"
    using assms(2) by (intro solo_Unlock) (simp_all add: goto_simps store_simps)
  then show ?thesis
    using ends_step [OF s1] assms(3) PopenFailed
    by (simp add: refresh_def goto_simps store_simps)
next
  case NoLine
  let ?m1 = "goto i Memset (store (\<lambda>s. s\<lparr>popen_calls := popen_calls s + 1\<rparr>) sys)"
  let ?m2 = "goto i Kgetline (store (\<lambda>s. s\<lparr>gcs_access_token := []\<rparr>) ?m1)"
  let ?m3 = "goto i Stamp ?m2"
  have s1: "step i sys = Some ?m1"
    using assms NoLine by (simp add: step_def)
  have s2: "step i ?m1 = Some ?m2"
    using assms(2) by (simp add: step_def goto_simps store_simps)
  have s3: "step i ?m2 = Some ?m3"
    using assms(2) NoLine by (simp add: step_def goto_simps store_simps)
  have "ends_in i ?m3
           ((static ?m3)\<lparr>last_access := time_store (sees (threads ?m3 i))\<rparr>)
           (finish ((static ?m3)\<lparr>last_access := time_store (sees (threads ?m3 i))\<rparr>))"
    using assms(2) by (intro solo_Stamp) (simp_all add: goto_simps store_simps)
  then show ?thesis
    using ends_step [OF s1 ends_step [OF s2 ends_step [OF s3]]] assms(3) NoLine
    by (simp add: refresh_def goto_simps store_simps process_update_order)
next
  case (Line ln)
  let ?m1 = "goto i Memset (store (\<lambda>s. s\<lparr>popen_calls := popen_calls s + 1\<rparr>) sys)"
  let ?m2 = "goto i Kgetline (store (\<lambda>s. s\<lparr>gcs_access_token := []\<rparr>) ?m1)"
  let ?m3 = "goto i Assert ?m2"
  have s1: "step i sys = Some ?m1"
    using assms Line by (simp add: step_def)
  have s2: "step i ?m1 = Some ?m2"
    using assms(2) by (simp add: step_def goto_simps store_simps)
  have s3: "step i ?m2 = Some ?m3"
    using assms(2) Line by (simp add: step_def goto_simps store_simps)
  show ?thesis
  proof (cases "\<not> ndebug (sees (threads sys i)) \<and> \<not> length ln \<le> MAX_GCS_TOKEN_SIZE")
    case True
    let ?m4 = "goto i (Stopped AssertionFailure) (?m3\<lparr>aborted := True\<rparr>)"
    have s4: "step i ?m3 = Some ?m4"
      using assms(2) Line True by (simp add: step_def goto_simps store_simps)
    have "ends_in i ?m4 (static ?m4) (Stopped AssertionFailure)"
      using ends_here [of i ?m4] by (simp add: goto_simps)
    then have "\<exists>s'. ends_in i sys s' (Stopped AssertionFailure)"
      using ends_step [OF s1 ends_step [OF s2 ends_step [OF s3 ends_step [OF s4]]]]
      by blast
    then show ?thesis
      using assms(3) Line True by (simp add: refresh_def)
  next
    case False
    let ?m4 = "goto i (Strncpy 0) ?m3"
    have s4: "step i ?m3 = Some ?m4"
      using assms(2) Line False by (auto simp: step_def goto_simps store_simps)
    have "ends_in i ?m4
           ((static ?m4)\<lparr>gcs_access_token := strncpy ln MAX_GCS_TOKEN_SIZE,
                           last_access := time_store (sees (threads ?m4 i))\<rparr>)
           (finish ((static ?m4)\<lparr>gcs_access_token := strncpy ln MAX_GCS_TOKEN_SIZE,
                           last_access := time_store (sees (threads ?m4 i))\<rparr>))"
      using assms(2) Line
      by (intro solo_Strncpy [where k = 0]) (simp_all add: goto_simps store_simps)
    then show ?thesis
      using ends_step [OF s1 ends_step [OF s2 ends_step [OF s3 ends_step [OF s4]]]]
        assms(3) Line False
      by (auto simp: refresh_def goto_simps store_simps process_update_order)
  qed
qed

lemma solo_Test:
  assumes "at (threads sys i) = Test" and "\<not> aborted sys"
  shows "case refresh (sees (threads sys i)) (static sys) of
           Inl e \<Rightarrow> \<exists>s'. ends_in i sys s' (Stopped e)
         | Inr s' \<Rightarrow> ends_in i sys s' (finish s')"
proof (cases "last_access (static sys) = 0 \<or>
         (last_access (static sys) \<noteq> 0 \<and>
          difftime (time_check (sees (threads sys i))) (last_access (static sys))
            > MAX_SERVICE_TOKEN_DURATION)")
  case True
  let ?m1 = "goto i Popen sys"
  have s1: "step i sys = Some ?m1"
    using assms True by (auto simp: step_def)
  have "case refresh (sees (threads ?m1 i)) (static ?m1) of
           Inl e \<Rightarrow> \<exists>s'. ends_in i ?m1 s' (Stopped e)
         | Inr s' \<Rightarrow> ends_in i ?m1 s' (finish s')"
    using assms(2) True by (intro solo_Popen) (simp_all add: goto_simps)
  then show ?thesis
    using ends_step [OF s1]
    by (auto simp: goto_simps split: sum.splits)
next
  case False
  let ?m1 = "goto i Unlock sys"
  have s1: "step i sys = Some ?m1"
    using assms False by (auto simp: step_def)
  have "ends_in i ?m1 (static ?m1) (finish (static ?m1))"
    using assms(2) by (intro solo_Unlock) (simp_all add: goto_simps)
  then show ?thesis
    using ends_step [OF s1] False by (auto simp: refresh_def goto_simps)
qed

lemma solo_run:
  assumes "at (threads sys i) = Enter" and "lock sys = None" and "\<not> aborted sys"
  shows "case get_gcs_access_token (sees (threads sys i)) (static sys) of
           Inl e \<Rightarrow> \<exists>s'. ends_in i sys s' (Stopped e)
         | Inr (r, s') \<Rightarrow> ends_in i sys s' (Returned r)"
proof -
  let ?w = "sees (threads sys i)"
  show ?thesis
  proof (cases "getenv ?w ''GCS_OAUTH_TOKEN''")
    case (Some token)
    let ?m1 = "goto i (Returned (Some token)) sys"
    have s1: "step i sys = Some ?m1"
      using assms Some by (simp add: step_def)
    show ?thesis
      using ends_step [OF s1 ends_here] Some
      by (simp add: get_gcs_access_token_def goto_simps)
  next
    case None
    note tok = None
    show ?thesis
    proof (cases "getenv ?w ''HTS_AUTH_LOCATION''")
      case (Some loc)
      let ?m1 = "goto i (Returned None) sys"
      have s1: "step i sys = Some ?m1"
        using assms tok Some by (simp add: step_def)
      show ?thesis
        using ends_step [OF s1 ends_here] tok Some
        by (simp add: get_gcs_access_token_def goto_simps)
    next
      case None
      note loc = None
      show ?thesis
      proof (cases "getenv ?w ''GOOGLE_APPLICATION_CREDENTIALS''")
        case None
        let ?m1 = "goto i Return sys"
        have s1: "step i sys = Some ?m1"
          using assms tok loc None by (simp add: step_def)
        have "ends_in i ?m1 (static ?m1) (finish (static ?m1))"
          using assms(3) by (intro solo_Return) (simp_all add: goto_simps)
        then show ?thesis
          using ends_step [OF s1] tok loc None
          by (auto simp: get_gcs_access_token_def goto_simps finish_def cached_def
              split: sum.splits if_splits)
      next
        case (Some path)
        let ?m1 = "goto i Lock sys"
        let ?m2 = "goto i Test (?m1\<lparr>lock := Some i\<rparr>)"
        have s1: "step i sys = Some ?m1"
          using assms tok loc Some by (simp add: step_def)
        have s2: "step i ?m1 = Some ?m2"
          using assms(2,3) by (simp add: step_def goto_simps)
        have "case refresh (sees (threads ?m2 i)) (static ?m2) of
           Inl e \<Rightarrow> \<exists>s'. ends_in i ?m2 s' (Stopped e)
         | Inr s' \<Rightarrow> ends_in i ?m2 s' (finish s')"
          using assms(3) by (intro solo_Test) (simp_all add: goto_simps)
        then show ?thesis
          using ends_step [OF s1 ends_step [OF s2]] tok loc Some
          by (auto simp: get_gcs_access_token_def goto_simps finish_def cached_def
              split: sum.splits if_splits)
      qed
    qed
  qed
qed

text \<open>
  C8. The comment of line 44 says that the mutex lets only one thread get or set
  \<open>gcs_access_token\<close>. Line 91 reads the buffer after the unlock of line 88. In the
  schedule below thread 0 finds the token fresh, unlocks and is about to execute line
  91; thread 1 then finds the token stale, locks, runs the subprocess, clears the
  buffer and has copied two bytes of the new token \<open>ya29.new\<close> when thread 0 executes
  line 91: thread 0 returns \<open>ya\<close>, which is neither the old token nor the new one,
  while thread 1 holds the mutex in the middle of line 82.
\<close>

theorem torn_read:
  "map_option (\<lambda>sys. (at (threads sys 0), at (threads sys 1), lock sys,
                       gcs_access_token (static sys)))
     (run [0, 0, 0, 0, 1, 1, 1, 1, 1, 1, 1, 1, 1, 0] two_callers)
   = Some (Returned (Some ''ya''), Strncpy 2, Some 1, ''ya'')"
  by (simp add: two_callers_def step_defs environ_def Let_def)

end
